theory Spec2Isabelle
  imports
    Main
    "HOL-Library.Word"
    "HOL-Library.Multiset"
    "HOL-Library.Char_ord"
    "HOL-Library.List_Lexorder"
begin

section \<open>Go strings and the library functions the server calls\<close>

text \<open>
  A Go string is a sequence of bytes; \<^typ>\<open>string\<close> is a list of \<^typ>\<open>char\<close>, one per byte.
  The order on strings (\<open><\<close> of Go) compares byte by byte, a proper prefix being smaller:
  the lexicographic order on lists over the byte order of characters.

  \<open>strings.ToLower\<close>, \<open>strings.TrimSpace\<close> and \<open>strings.Split\<close> belong to Go's library.
  They are modelled on ASCII text: bytes from 128 on are neither letters nor white space here,
  whereas Go decodes them as UTF-8 and also maps Unicode letters and trims Unicode spaces.
\<close>

definition isUpper :: "char \<Rightarrow> bool" where
  "isUpper c \<longleftrightarrow> CHR ''A'' \<le> c \<and> c \<le> CHR ''Z''"

definition toLowerByte :: "char \<Rightarrow> char" where
  "toLowerByte c = (if isUpper c then char_of (of_char c + (32::nat)) else c)"

definition ToLower :: "string \<Rightarrow> string" where
  "ToLower s = map toLowerByte s"

definition isSpace :: "char \<Rightarrow> bool" where
  "isSpace c \<longleftrightarrow> c \<in> set [CHR 0x09, CHR 0x0A, CHR 0x0B, CHR 0x0C, CHR 0x0D, CHR 0x20]"

definition TrimSpace :: "string \<Rightarrow> string" where
  "TrimSpace s = rev (dropWhile isSpace (rev (dropWhile isSpace s)))"

text \<open>\<open>strings.Split(s, sep)\<close> for a separator of one byte: one more piece than separators.\<close>

fun Split :: "string \<Rightarrow> char \<Rightarrow> string list" where
  "Split [] sep = [[]]"
| "Split (c # cs) sep =
     (if c = sep then [] # Split cs sep
      else (case Split cs sep of [] \<Rightarrow> [[c]] | w # ws \<Rightarrow> (c # w) # ws))"

text \<open>
  A slice variable that may still be \<open>nil\<close> is a \<^typ>\<open>string list option\<close>, \<open>None\<close> being
  \<open>nil\<close>. \<open>append\<close> onto \<open>nil\<close> of no elements stays \<open>nil\<close>.
\<close>

fun go_append :: "string list option \<Rightarrow> string list \<Rightarrow> string list option" where
  "go_append None [] = None"
| "go_append None (x # xs) = Some (x # xs)"
| "go_append (Some ys) xs = Some (ys @ xs)"

fun elems :: "string list option \<Rightarrow> string list" where
  "elems None = []"
| "elems (Some xs) = xs"

section \<open>The remote client\<close>

text \<open>
  An \<open>error\<close> value of Go, observed through its \<open>Error()\<close> text. Of the input and the
  output of the list operation only the fields the server sets or reads are kept; both have
  a field \<open>NextToken\<close>, named \<open>in_NextToken\<close> and \<open>out_NextToken\<close> here. A pointer is an
  option, \<open>None\<close> being \<open>nil\<close>; the \<open>int32\<close> page size is a word of 32 bits.
\<close>

datatype error = ErrorString (Error: string)

record SuppressedDestinationSummary =
  EmailAddress :: "string option"

record ListSuppressedDestinationsInput =
  in_NextToken :: "string option"
  in_PageSize :: "32 word option"

record ListSuppressedDestinationsOutput =
  SuppressedDestinationSummaries :: "SuppressedDestinationSummary list"
  out_NextToken :: "string option"

text \<open>
  The SES client is outside the repository. It is a parameter: two operations on a remote
  state \<open>'r\<close>, each returning its answer and the next remote state. A call returns either
  an error or an output, never both. \<open>DeleteSuppressedDestination\<close> takes the
  \<open>EmailAddress\<close> of its input, which the server always sets.
\<close>

record 'r Client =
  ListSuppressedDestinations ::
    "'r \<Rightarrow> ListSuppressedDestinationsInput \<Rightarrow> (error + ListSuppressedDestinationsOutput) \<times> 'r"
  DeleteSuppressedDestination :: "'r \<Rightarrow> string \<Rightarrow> error option \<times> 'r"

fun ToString :: "string option \<Rightarrow> string" where
  "ToString None = []"
| "ToString (Some s) = s"

section \<open>The server state and its trace\<close>

text \<open>
  \<open>Server.list\<close> (the field \<open>list'\<close> here) and \<open>Server.index\<close>. Whether \<open>list\<close> is
  \<open>nil\<close> or empty is never observed (it is ranged over, sliced and copied), so it is a
  plain list.
\<close>

record Server =
  list' :: "string list"
  index :: "string \<rightharpoonup> string"

text \<open>
  What an operation does besides computing: the calls to the remote client with their
  answers, the operations on \<open>listMu\<close>, and the writes to the two fields, in program order.
\<close>

datatype event =
    CallList ListSuppressedDestinationsInput "error + ListSuppressedDestinationsOutput"
  | CallDelete string "error option"
  | RLock | RUnlock | Lock | Unlock
  | WriteList | WriteIndex

definition NewServerState :: Server where
  "NewServerState = \<lparr>list' = [], index = Map.empty\<rparr>"

section \<open>Removal\<close>

text \<open>
  The loop of \<open>handleRemove\<close> that cuts the first element equal to \<open>orig\<close> out of the list:
  \<open>for i, v := range s.list { if v == orig { s.list = append(s.list[:i], s.list[i+1:]...); break } }\<close>.
\<close>

function cut_first :: "string list \<Rightarrow> nat \<Rightarrow> string \<Rightarrow> string list" where
  "cut_first xs i orig =
     (if i < length xs
      then (if xs ! i = orig then take i xs @ drop (i + 1) xs else cut_first xs (i + 1) orig)
      else xs)"
  by pat_completeness auto
termination
  by (relation "measure (\<lambda>(xs, i, orig). length xs - i)") auto

declare cut_first.simps [simp del]

text \<open>
  The body of the loop over the inputs of \<open>handleRemove\<close>, for one input: the result string
  for it, the next remote state, the next server state and the events.
\<close>

definition remove_one ::
  "'r Client \<Rightarrow> string \<Rightarrow> 'r \<Rightarrow> Server \<Rightarrow> string \<times> 'r \<times> Server \<times> event list" where
  "remove_one cl input r s =
     (let key = ToLower input in
      case index s key of
        None \<Rightarrow> (''not found: '' @ input, r, s, [RLock, RUnlock])
      | Some orig \<Rightarrow>
          (case DeleteSuppressedDestination cl r orig of
             (Some err, r') \<Rightarrow>
               (''error: '' @ input @ '' ('' @ Error err @ '')'', r', s,
                [RLock, RUnlock, CallDelete orig (Some err)])
           | (None, r') \<Rightarrow>
               (''removed: '' @ orig, r',
                s\<lparr>index := (index s)(key := None), list' := cut_first (list' s) 0 orig\<rparr>,
                [RLock, RUnlock, CallDelete orig None, Lock, WriteIndex]
                  @ (if orig \<in> set (list' s) then [WriteList] else [])
                  @ [Unlock])))"

text \<open>The loop over \<open>inputs\<close>; \<open>results\<close> starts as \<open>nil\<close> and grows by one string per input.\<close>

fun remove_loop ::
  "'r Client \<Rightarrow> string list \<Rightarrow> string list option \<Rightarrow> 'r \<Rightarrow> Server \<Rightarrow> event list
     \<Rightarrow> string list option \<times> 'r \<times> Server \<times> event list" where
  "remove_loop cl [] results r s evs = (results, r, s, evs)"
| "remove_loop cl (input # rest) results r s evs =
     (case remove_one cl input r s of
        (res, r', s', ev) \<Rightarrow> remove_loop cl rest (go_append results [res]) r' s' (evs @ ev))"

text \<open>
  The loop that prepares \<open>inputs\<close> from the lines of the request:
  \<open>line = strings.TrimSpace(line); if line != "" { inputs = append(inputs, line) }\<close>.
\<close>

fun gather_inputs :: "string list \<Rightarrow> string list \<Rightarrow> string list" where
  "gather_inputs inputs [] = inputs"
| "gather_inputs inputs (line # rest) =
     (let line' = TrimSpace line in
      if line' \<noteq> [] then gather_inputs (inputs @ [line']) rest else gather_inputs inputs rest)"

definition request_inputs :: "string \<Rightarrow> string list" where
  "request_inputs emails = gather_inputs [] (Split emails (CHR 0x0A))"

section \<open>Refresh\<close>

text \<open>
  The pagination loop of \<open>refresh\<close>. It runs as long as the remote returns a cursor, so it
  is a partial function: \<open>None\<close> when the loop never ends.
\<close>

partial_function (option) fetch_all ::
  "'r Client \<Rightarrow> 'r \<Rightarrow> string option \<Rightarrow> string list \<Rightarrow> event list
     \<Rightarrow> ((error + string list) \<times> 'r \<times> event list) option" where
  "fetch_all cl r token emails evs =
     (let inp = \<lparr>in_NextToken = token, in_PageSize = Some 1000\<rparr> in
      case ListSuppressedDestinations cl r inp of
        (Inl err, r') \<Rightarrow> Some (Inl err, r', evs @ [CallList inp (Inl err)])
      | (Inr out, r') \<Rightarrow>
          (let emails' = emails @ map (\<lambda>d. ToString (EmailAddress d))
                                      (SuppressedDestinationSummaries out);
               evs' = evs @ [CallList inp (Inr out)]
           in if out_NextToken out = None then Some (Inr emails', r', evs')
              else fetch_all cl r' (out_NextToken out) emails' evs'))"

declare fetch_all.simps [code]

text \<open>The comparison passed to \<open>sort.Slice\<close>.\<close>

definition less_lower :: "string \<Rightarrow> string \<Rightarrow> bool" where
  "less_lower a b \<longleftrightarrow> ToLower a < ToLower b"

text \<open>The loop \<open>for _, e := range emails { idx[strings.ToLower(e)] = e }\<close>.\<close>

fun build_index :: "(string \<rightharpoonup> string) \<Rightarrow> string list \<Rightarrow> (string \<rightharpoonup> string)" where
  "build_index idx [] = idx"
| "build_index idx (e # es) = build_index (idx(ToLower e \<mapsto> e)) es"

text \<open>
  \<open>sort.Slice\<close> belongs to Go's library, which promises a sorted permutation and no
  stability. It is a parameter \<open>sortSlice\<close>, taking the comparison on elements and the
  slice, and \<open>sort_contract\<close> is what the library promises of it.
\<close>

type_synonym sorter = "(string \<Rightarrow> string \<Rightarrow> bool) \<Rightarrow> string list \<Rightarrow> string list"


text \<open>
  \<open>refresh\<close>: the error it returns (\<open>None\<close> for \<open>nil\<close>), the server state, the remote state
  and the events; \<open>None\<close> as a whole when the pagination never ends.
\<close>

definition refresh ::
  "'r Client \<Rightarrow> sorter \<Rightarrow> 'r \<Rightarrow> Server \<Rightarrow> (error option \<times> Server \<times> 'r \<times> event list) option" where
  "refresh cl sortSlice r s =
     (case fetch_all cl r None [] [] of
        None \<Rightarrow> None
      | Some (Inl err, r', evs) \<Rightarrow> Some (Some err, s, r', evs)
      | Some (Inr emails, r', evs) \<Rightarrow>
          (let emails' = sortSlice less_lower emails;
               idx = build_index Map.empty emails'
           in Some (None, s\<lparr>list' := emails', index := idx\<rparr>, r',
                    evs @ [Lock, WriteList, WriteIndex, Unlock])))"

text \<open>
  \<open>NewServer\<close> after the configuration is loaded: the first refresh on the empty state,
  its error logged and dropped.
\<close>

definition NewServer :: "'r Client \<Rightarrow> sorter \<Rightarrow> 'r \<Rightarrow> (Server \<times> 'r \<times> event list) option" where
  "NewServer cl sortSlice r =
     (case refresh cl sortSlice r NewServerState of
        None \<Rightarrow> None
      | Some (err, s, r', evs) \<Rightarrow> Some (s, r', evs))"

section \<open>The HTTP handlers\<close>

text \<open>
  A JSON text is modelled by the value it denotes; \<open>JString s\<close> is the JSON string for \<open>s\<close>.
  \<open>json.Encoder\<close> writes \<open>null\<close> for a \<open>nil\<close> slice and an array otherwise.
\<close>

datatype json = JNull | JString string | JArray "json list" | JObject "(string \<times> json) list"

datatype body = Text string | Json json

record Response =
  StatusCode :: nat
  Body :: body

fun encode_strings :: "string list option \<Rightarrow> json" where
  "encode_strings None = JNull"
| "encode_strings (Some xs) = JArray (map JString xs)"

record removeRequest =
  Emails :: string

record removeResponse =
  Results :: "string list option"

definition encode_removeResponse :: "removeResponse \<Rightarrow> json" where
  "encode_removeResponse v = JObject [(''results'', encode_strings (Results v))]"

text \<open>
  A request: its method, and what \<open>json.Decoder.Decode\<close> makes of its body for
  \<open>handleRemove\<close> (\<open>None\<close> when \<open>Decode\<close> returns an error).
\<close>

record Request =
  Method :: string
  Decoded :: "removeRequest option"

definition http_Error :: "string \<Rightarrow> nat \<Rightarrow> Response" where
  "http_Error msg code = \<lparr>StatusCode = code, Body = Text (msg @ [CHR 0x0A])\<rparr>"

definition respondJSON :: "json \<Rightarrow> Response" where
  "respondJSON v = \<lparr>StatusCode = 200, Body = Json v\<rparr>"

text \<open>\<open>snapshot\<close> is the copy \<open>append([]string(nil), s.list...)\<close> that \<open>handleList\<close> takes.\<close>

definition snapshot :: "Server \<Rightarrow> string list option" where
  "snapshot s = go_append None (list' s)"

definition handleList :: "Server \<Rightarrow> Response \<times> event list" where
  "handleList s = (respondJSON (encode_strings (snapshot s)), [RLock, RUnlock])"

definition handleUpdate ::
  "'r Client \<Rightarrow> sorter \<Rightarrow> Request \<Rightarrow> 'r \<Rightarrow> Server
     \<Rightarrow> (Response \<times> 'r \<times> Server \<times> event list) option" where
  "handleUpdate cl sortSlice req r s =
     (if Method req \<noteq> ''POST'' then Some (http_Error ''POST required'' 405, r, s, [])
      else case refresh cl sortSlice r s of
             None \<Rightarrow> None
           | Some (Some err, s', r', evs) \<Rightarrow> Some (http_Error (Error err) 500, r', s', evs)
           | Some (None, s', r', evs) \<Rightarrow>
               (case handleList s' of (resp, evs') \<Rightarrow> Some (resp, r', s', evs @ evs')))"

definition handleRemove ::
  "'r Client \<Rightarrow> Request \<Rightarrow> 'r \<Rightarrow> Server \<Rightarrow> Response \<times> 'r \<times> Server \<times> event list" where
  "handleRemove cl req r s =
     (if Method req \<noteq> ''POST'' then (http_Error ''POST required'' 405, r, s, [])
      else case Decoded req of
             None \<Rightarrow> (http_Error ''invalid json'' 400, r, s, [])
           | Some rq \<Rightarrow>
               (case remove_loop cl (request_inputs (Emails rq)) None r s [] of
                  (results, r', s', evs) \<Rightarrow>
                    (respondJSON (encode_removeResponse \<lparr>Results = results\<rparr>), r', s', evs)))"

section \<open>The specification's terms\<close>

text \<open>
  A request to the remote list operation with its answer; and the exhaustive pagination in
  the specification's words: the first request carries the given cursor (none at the start)
  and the page size 1000, each later request carries the cursor of the answer before it,
  and the run ends with the first answer that is an error or has no cursor.
  \<open>pagination cl r cursor calls r'\<close>: from the remote state \<open>r\<close> the requests and answers
  are \<open>calls\<close>, and the remote is left in \<open>r'\<close>.
\<close>

type_synonym call = "ListSuppressedDestinationsInput \<times> (error + ListSuppressedDestinationsOutput)"

inductive pagination :: "'r Client \<Rightarrow> 'r \<Rightarrow> string option \<Rightarrow> call list \<Rightarrow> 'r \<Rightarrow> bool"
  for cl :: "'r Client" where
  failed:
    "ListSuppressedDestinations cl r \<lparr>in_NextToken = cursor, in_PageSize = Some 1000\<rparr> = (Inl err, r')
     \<Longrightarrow> pagination cl r cursor [(\<lparr>in_NextToken = cursor, in_PageSize = Some 1000\<rparr>, Inl err)] r'"
| last_page:
    "ListSuppressedDestinations cl r \<lparr>in_NextToken = cursor, in_PageSize = Some 1000\<rparr> = (Inr out, r')
     \<Longrightarrow> out_NextToken out = None
     \<Longrightarrow> pagination cl r cursor [(\<lparr>in_NextToken = cursor, in_PageSize = Some 1000\<rparr>, Inr out)] r'"
| next_page:
    "ListSuppressedDestinations cl r \<lparr>in_NextToken = cursor, in_PageSize = Some 1000\<rparr> = (Inr out, r')
     \<Longrightarrow> out_NextToken out \<noteq> None
     \<Longrightarrow> pagination cl r' (out_NextToken out) calls r''
     \<Longrightarrow> pagination cl r cursor
           ((\<lparr>in_NextToken = cursor, in_PageSize = Some 1000\<rparr>, Inr out) # calls) r''"

text \<open>The addresses of every page in fetch order, and what the pagination yields.\<close>

fun addresses_of :: "call \<Rightarrow> string list" where
  "addresses_of (inp, Inl err) = []"
| "addresses_of (inp, Inr out) =
     map (\<lambda>d. ToString (EmailAddress d)) (SuppressedDestinationSummaries out)"

definition collected :: "call list \<Rightarrow> string list" where
  "collected calls = concat (map addresses_of calls)"

fun call_event :: "call \<Rightarrow> event" where
  "call_event (inp, res) = CallList inp res"

definition outcome :: "call list \<Rightarrow> error + string list" where
  "outcome calls = (case snd (last calls) of Inl err \<Rightarrow> Inl err | Inr out \<Rightarrow> Inr (collected calls))"




text \<open>
  The server states the operations produce: the empty state of \<open>NewServer\<close>, a refresh
  after which no two addresses of the list share a lowercased form, and a removal; the
  remote may be in any state at each operation.
\<close>

inductive reachable :: "'r Client \<Rightarrow> sorter \<Rightarrow> Server \<Rightarrow> bool"
  for cl :: "'r Client" and sortSlice :: sorter where
  initial: "reachable cl sortSlice NewServerState"
| refreshed:
    "reachable cl sortSlice s \<Longrightarrow> refresh cl sortSlice r s = Some (err, s', r', evs)
     \<Longrightarrow> distinct (map ToLower (list' s')) \<Longrightarrow> reachable cl sortSlice s'"
| removed:
    "reachable cl sortSlice s \<Longrightarrow> remove_one cl input r s = (res, r', s', evs)
     \<Longrightarrow> reachable cl sortSlice s'"



section \<open>Fixtures\<close>

text \<open>A remote of three pages, whose delete fails for one address; and a small cache.\<close>

definition summary :: "string \<Rightarrow> SuppressedDestinationSummary" where
  "summary a = \<lparr>EmailAddress = Some a\<rparr>"

definition fixture_list ::
  "string list \<Rightarrow> ListSuppressedDestinationsInput
     \<Rightarrow> (error + ListSuppressedDestinationsOutput) \<times> string list" where
  "fixture_list r inp =
     (if in_NextToken inp = None then
        (Inr \<lparr>SuppressedDestinationSummaries = [summary ''b@x.com'', summary ''A@x.com''],
              out_NextToken = Some ''t1''\<rparr>, r)
      else if in_NextToken inp = Some ''t1'' then
        (Inr \<lparr>SuppressedDestinationSummaries = [summary ''c@x.com''],
              out_NextToken = Some ''t2''\<rparr>, r)
      else if in_NextToken inp = Some ''t2'' then
        (Inr \<lparr>SuppressedDestinationSummaries = [], out_NextToken = None\<rparr>, r)
      else (Inl (ErrorString ''bad token''), r))"

definition fixture_delete :: "string list \<Rightarrow> string \<Rightarrow> error option \<times> string list" where
  "fixture_delete r a =
     (if a = ''c@x.com'' then (Some (ErrorString ''throttled''), r) else (None, r @ [a]))"

definition fixture :: "string list Client" where
  "fixture = \<lparr>ListSuppressedDestinations = fixture_list,
              DeleteSuppressedDestination = fixture_delete\<rparr>"

definition cache_foo :: Server where
  "cache_foo = \<lparr>list' = [''Foo@Bar.com'', ''c@x.com''],
                index = [''foo@bar.com'' \<mapsto> ''Foo@Bar.com'', ''c@x.com'' \<mapsto> ''c@x.com'']\<rparr>"

definition fixture_calls :: "call list" where
  "fixture_calls =
     [(\<lparr>in_NextToken = None, in_PageSize = Some 1000\<rparr>,
       Inr \<lparr>SuppressedDestinationSummaries = [summary ''b@x.com'', summary ''A@x.com''],
            out_NextToken = Some ''t1''\<rparr>),
      (\<lparr>in_NextToken = Some ''t1'', in_PageSize = Some 1000\<rparr>,
       Inr \<lparr>SuppressedDestinationSummaries = [summary ''c@x.com''],
            out_NextToken = Some ''t2''\<rparr>),
      (\<lparr>in_NextToken = Some ''t2'', in_PageSize = Some 1000\<rparr>,
       Inr \<lparr>SuppressedDestinationSummaries = [], out_NextToken = None\<rparr>)]"

text \<open>A remote whose second page request fails.\<close>

definition failing_list ::
  "string list \<Rightarrow> ListSuppressedDestinationsInput
     \<Rightarrow> (error + ListSuppressedDestinationsOutput) \<times> string list" where
  "failing_list r inp =
     (if in_NextToken inp = None then
        (Inr \<lparr>SuppressedDestinationSummaries = [summary ''z@x.com''],
              out_NextToken = Some ''t1''\<rparr>, r)
      else (Inl (ErrorString ''remote down''), r))"

definition failing :: "string list Client" where
  "failing = \<lparr>ListSuppressedDestinations = failing_list,
              DeleteSuppressedDestination = fixture_delete\<rparr>"

definition failing_calls :: "call list" where
  "failing_calls =
     [(\<lparr>in_NextToken = None, in_PageSize = Some 1000\<rparr>,
       Inr \<lparr>SuppressedDestinationSummaries = [summary ''z@x.com''],
            out_NextToken = Some ''t1''\<rparr>),
      (\<lparr>in_NextToken = Some ''t1'', in_PageSize = Some 1000\<rparr>,
       Inl (ErrorString ''remote down''))]"

text \<open>
  Two sorters that keep the library's promise: insertion sort, which keeps equal elements in
  their order, and insertion sort of the reversed slice, which reverses them.
\<close>

fun insert_by :: "(string \<Rightarrow> string \<Rightarrow> bool) \<Rightarrow> string \<Rightarrow> string list \<Rightarrow> string list" where
  "insert_by lt x [] = [x]"
| "insert_by lt x (y # ys) = (if lt x y then x # y # ys else y # insert_by lt x ys)"

definition insertion_sort :: sorter where
  "insertion_sort lt xs = foldl (\<lambda>acc x. insert_by lt x acc) [] xs"

definition reversing_sort :: sorter where
  "reversing_sort lt xs = insertion_sort lt (rev xs)"



definition tie_calls :: "call list" where
  "tie_calls =
     [(\<lparr>in_NextToken = None, in_PageSize = Some 1000\<rparr>,
       Inr \<lparr>SuppressedDestinationSummaries = [summary ''A@x.com'', summary ''a@x.com''],
            out_NextToken = None\<rparr>)]"



text \<open>The \<open>emails\<close> field of a removal request with two lines.\<close>

definition two_lines :: string where
  "two_lines = ''a@x.com'' @ [CHR 0x0A] @ ''notthere@x.com'' @ [CHR 0x0A]"

section \<open>Properties of removal\<close>

lemma cut_first_take: "i \<le> length xs \<Longrightarrow> cut_first xs i orig = take i xs @ remove1 orig (drop i xs)"
proof (induction xs i orig rule: cut_first.induct)
  case (1 xs i orig)
  show ?case
  proof (cases "i < length xs")
    case False
    have "cut_first xs i orig = xs"
      using False by (subst cut_first.simps) simp
    with False "1.prems" show ?thesis by simp
  next
    case True
    then have d: "drop i xs = xs ! i # drop (Suc i) xs"
      by (simp add: Cons_nth_drop_Suc)
    show ?thesis
    proof (cases "xs ! i = orig")
      case eq: True
      with True d show ?thesis by (simp add: cut_first.simps [of xs i orig])
    next
      case neq: False
      have "cut_first xs i orig = cut_first xs (i + 1) orig"
        using True neq by (simp add: cut_first.simps [of xs i orig])
      also have "\<dots> = take (i + 1) xs @ remove1 orig (drop (i + 1) xs)"
        using "1.IH" True neq by simp
      also have "\<dots> = take i xs @ remove1 orig (drop i xs)"
        using True neq d by (simp add: take_Suc_conv_app_nth)
      finally show ?thesis .
    qed
  qed
qed

lemma cut_first_remove1: "cut_first xs 0 orig = remove1 orig xs"
  by (simp add: cut_first_take)

lemma remove_one_absent:
  "index s (ToLower input) = None \<Longrightarrow>
   remove_one cl input r s = (''not found: '' @ input, r, s, [RLock, RUnlock])"
  by (simp add: remove_one_def)


lemma remove_one_deleted:
  "index s (ToLower input) = Some X \<Longrightarrow> DeleteSuppressedDestination cl r X = (None, r') \<Longrightarrow>
   remove_one cl input r s =
     (''removed: '' @ X, r',
      s\<lparr>index := (index s)(ToLower input := None), list' := remove1 X (list' s)\<rparr>,
      [RLock, RUnlock, CallDelete X None, Lock, WriteIndex]
        @ (if X \<in> set (list' s) then [WriteList] else []) @ [Unlock])"
  by (simp add: remove_one_def cut_first_remove1)

lemma ToLower_examples:
  "ToLower ''foo@bar.com'' = ''foo@bar.com''"
  "ToLower ''FOO@bar.com'' = ''foo@bar.com''"
  "ToLower ''c@x.com'' = ''c@x.com''"
  "ToLower ''nobody@x.com'' = ''nobody@x.com''"
  by code_simp+

text \<open>
  C3. When the lowercased input is a key of the index, with value \<open>X\<close>, and the remote
  delete of \<open>X\<close> succeeds, the removal reports \<open>removed: X\<close> (the cached form, not the
  input as typed), deletes the lowercased key from the index and removes the first occurrence
  of \<open>X\<close> from the list. Both writes stand between one \<open>Lock\<close> and its \<open>Unlock\<close>.
\<close>

theorem remove_one_success:
  assumes "index s (ToLower input) = Some X"
    and "DeleteSuppressedDestination cl r X = (None, r')"
  shows "remove_one cl input r s =
     (''removed: '' @ X, r',
      s\<lparr>index := (index s)(ToLower input := None), list' := remove1 X (list' s)\<rparr>,
      [RLock, RUnlock, CallDelete X None, Lock, WriteIndex]
        @ (if X \<in> set (list' s) then [WriteList] else []) @ [Unlock])"
  using assms by (rule remove_one_deleted)

theorem remove_one_success_witness:
  "remove_one fixture ''FOO@bar.com'' [] cache_foo =
     (''removed: Foo@Bar.com'', [''Foo@Bar.com''],
      cache_foo\<lparr>index := (index cache_foo)(''foo@bar.com'' := None), list' := [''c@x.com'']\<rparr>,
      [RLock, RUnlock, CallDelete ''Foo@Bar.com'' None, Lock, WriteIndex, WriteList, Unlock])"
  using remove_one_success [where s = cache_foo and input = "''FOO@bar.com''"
      and X = "''Foo@Bar.com''" and cl = fixture and r = "[]" and r' = "[''Foo@Bar.com'']"]
  by (simp add: ToLower_examples cache_foo_def fixture_def fixture_delete_def)



text \<open>
  C5. When the lowercased input is a key of the index, with value \<open>X\<close>, and the first remote
  delete succeeds, two removals of the same input in a row report \<open>removed: X\<close> and then
  \<open>not found: input\<close>.
\<close>

theorem remove_twice:
  assumes "index s (ToLower input) = Some X"
    and "DeleteSuppressedDestination cl r X = (None, r')"
  shows "fst (remove_one cl input r s) = ''removed: '' @ X
    \<and> (case remove_one cl input r s of
          (res1, r1, s1, ev1) \<Rightarrow> fst (remove_one cl input r1 s1) = ''not found: '' @ input)"
  using assms by (simp add: remove_one_deleted remove_one_absent)

theorem remove_twice_witness:
  "fst (remove_one fixture ''FOO@bar.com'' [] cache_foo) = ''removed: Foo@Bar.com''
   \<and> (case remove_one fixture ''FOO@bar.com'' [] cache_foo of
         (res1, r1, s1, ev1) \<Rightarrow> fst (remove_one fixture ''FOO@bar.com'' r1 s1) = ''not found: FOO@bar.com'')"
  using remove_twice [where s = cache_foo and input = "''FOO@bar.com''"
      and X = "''Foo@Bar.com''" and cl = fixture and r = "[]" and r' = "[''Foo@Bar.com'']"]
  by (simp add: ToLower_examples cache_foo_def fixture_def fixture_delete_def)

section \<open>Properties of refresh\<close>

lemma pagination_fetch_all:
  "pagination cl r cursor calls r' \<Longrightarrow>
   fetch_all cl r cursor emails evs =
     Some (case snd (last calls) of Inl err \<Rightarrow> Inl err | Inr out \<Rightarrow> Inr (emails @ collected calls),
           r', evs @ map call_event calls)"
proof (induction arbitrary: emails evs rule: pagination.induct)
  case (failed r cursor err r')
  then show ?case by (subst fetch_all.simps) (simp add: collected_def)
next
  case (last_page r cursor out r')
  then show ?case by (subst fetch_all.simps) (simp add: collected_def)
next
  case (next_page r cursor out r' calls r'')
  from next_page.hyps(3) have ne: "calls \<noteq> []" by (cases rule: pagination.cases) auto
  show ?case
    using next_page.hyps(1,2) ne
    by (subst fetch_all.simps) (simp add: next_page.IH collected_def Let_def split: sum.splits)
qed

lemma fetch_all_pagination:
  "fetch_all cl r cursor emails evs = Some y \<Longrightarrow> \<exists>calls r'. pagination cl r cursor calls r'"
proof (induction rule: fetch_all.raw_induct[rotated 1, consumes 1])
  case (1 fetch_all cl r cursor emails evs y)
  let ?inp = "\<lparr>in_NextToken = cursor, in_PageSize = Some 1000\<rparr>"
  obtain res r1 where call: "ListSuppressedDestinations cl r ?inp = (res, r1)"
    by (cases "ListSuppressedDestinations cl r ?inp")
  show ?case
  proof (cases res)
    case (Inl err)
    with call show ?thesis by (blast intro: pagination.failed)
  next
    case (Inr out)
    show ?thesis
    proof (cases "out_NextToken out = None")
      case True
      with call Inr show ?thesis by (blast intro: pagination.last_page)
    next
      case False
      with "1.hyps" call Inr obtain y' where
        "fetch_all cl r1 (out_NextToken out)
           (emails @ map (\<lambda>d. ToString (EmailAddress d)) (SuppressedDestinationSummaries out))
           (evs @ [CallList ?inp (Inr out)]) = Some y'"
        by (auto simp: Let_def)
      then obtain calls r2 where "pagination cl r1 (out_NextToken out) calls r2"
        using "1.IH" by blast
      with call Inr False show ?thesis by (blast intro: pagination.next_page)
    qed
  qed
qed

lemma fixture_pagination: "pagination fixture [] None fixture_calls []"
  unfolding fixture_calls_def
  by (rule pagination.intros; simp add: fixture_def fixture_list_def)+

lemma failing_pagination: "pagination failing [] None failing_calls []"
  unfolding failing_calls_def
  by (rule pagination.intros; simp add: failing_def failing_list_def)+

lemma pagination_nonempty: "pagination cl r cursor calls r' \<Longrightarrow> calls \<noteq> []"
  by (erule pagination.cases) auto

lemma pagination_error_last:
  "pagination cl r cursor calls r' \<Longrightarrow> (inp, Inl err) \<in> set calls \<Longrightarrow> snd (last calls) = Inl err"
proof (induction rule: pagination.induct)
  case (next_page r cursor out r' calls r'')
  have "calls \<noteq> []" by (rule pagination_nonempty [OF next_page.hyps(3)])
  moreover from next_page.prems have "(inp, Inl err) \<in> set calls" by simp
  ultimately show ?case using next_page.IH by simp
qed simp_all

lemma pagination_all_pages:
  assumes "pagination cl r cursor calls r'" and "\<forall>c \<in> set calls. \<not> isl (snd c)"
  shows "outcome calls = Inr (collected calls)"
proof -
  have "last calls \<in> set calls"
    using pagination_nonempty [OF assms(1)] by simp
  with assms(2) have "\<not> isl (snd (last calls))" by blast
  then show ?thesis
    by (cases "snd (last calls)") (simp_all add: outcome_def)
qed

lemma refresh_of_pagination:
  assumes "pagination cl r None calls r'"
  shows "refresh cl sortSlice r s =
     (case outcome calls of
        Inl err \<Rightarrow> Some (Some err, s, r', map call_event calls)
      | Inr emails \<Rightarrow>
          Some (None,
                s\<lparr>list' := sortSlice less_lower emails,
                  index := build_index Map.empty (sortSlice less_lower emails)\<rparr>,
                r', map call_event calls @ [Lock, WriteList, WriteIndex, Unlock]))"
  using pagination_fetch_all [OF assms, of "[]" "[]"]
  by (simp add: refresh_def outcome_def Let_def split: sum.splits)

text \<open>
  C9. \<open>refresh\<close> paginates exhaustively. It returns exactly when the pagination from no
  cursor ends, having made exactly the calls of that pagination: the first with no cursor
  and page size 1000, each later one with the cursor of the answer before, the last one
  being the first answer with no cursor (an error has none). The list it then sorts is the
  concatenation of the addresses of every page in fetch order.
\<close>

theorem refresh_paginates:
  "refresh cl sortSlice r s = Some (err, s', r', evs) \<longleftrightarrow>
     (\<exists>calls. pagination cl r None calls r' \<and>
        (case outcome calls of
           Inl e \<Rightarrow> err = Some e \<and> s' = s \<and> evs = map call_event calls
         | Inr emails \<Rightarrow>
             emails = collected calls \<and> err = None
             \<and> s' = s\<lparr>list' := sortSlice less_lower emails,
                       index := build_index Map.empty (sortSlice less_lower emails)\<rparr>
             \<and> evs = map call_event calls @ [Lock, WriteList, WriteIndex, Unlock]))"
  (is "?run \<longleftrightarrow> (\<exists>calls. ?spec calls)")
proof
  assume run: ?run
  then obtain y where f: "fetch_all cl r None [] [] = Some y"
    by (cases "fetch_all cl r None [] []") (simp_all add: refresh_def)
  from fetch_all_pagination [OF f] obtain calls r2 where p: "pagination cl r None calls r2"
    by auto
  note eq = refresh_of_pagination [OF p, of sortSlice s]
  have "?spec calls"
  proof (cases "outcome calls")
    case (Inl e)
    with eq run p show ?thesis by simp
  next
    case (Inr emails)
    then have "emails = collected calls"
      by (simp add: outcome_def split: sum.splits)
    with Inr eq run p show ?thesis by simp
  qed
  then show "\<exists>calls. ?spec calls" ..
next
  assume "\<exists>calls. ?spec calls"
  then obtain calls where sp: "?spec calls" ..
  then have p: "pagination cl r None calls r'" ..
  show ?run
  proof (cases "outcome calls")
    case (Inl e)
    with sp show ?thesis by (simp add: refresh_of_pagination [OF p])
  next
    case (Inr emails)
    with sp show ?thesis by (simp add: refresh_of_pagination [OF p])
  qed
qed

text \<open>
  C1. When some page request of a refresh returns an error, \<open>refresh\<close> returns that error
  and the server state is the one before the call: list and index are unchanged, and so is
  the snapshot.
\<close>

theorem refresh_failure_keeps_cache:
  assumes "pagination cl r None calls r'" and "(inp, Inl err) \<in> set calls"
  shows "refresh cl sortSlice r s = Some (Some err, s, r', map call_event calls)
    \<and> snapshot (fst (snd (the (refresh cl sortSlice r s)))) = snapshot s"
proof -
  have "outcome calls = Inl err"
    using pagination_error_last [OF assms] by (simp add: outcome_def)
  then show ?thesis
    by (simp add: refresh_of_pagination [OF assms(1)])
qed













lemma collected_examples:
  "collected fixture_calls = [''b@x.com'', ''A@x.com'', ''c@x.com'']"
  "collected tie_calls = [''A@x.com'', ''a@x.com'']"
  by (simp_all add: collected_def fixture_calls_def tie_calls_def summary_def)

lemma sort_examples:
  "insertion_sort less_lower [''b@x.com'', ''A@x.com'', ''c@x.com'']
     = [''A@x.com'', ''b@x.com'', ''c@x.com'']"
  "reversing_sort less_lower [''A@x.com'', ''a@x.com''] = [''a@x.com'', ''A@x.com'']"
  by code_simp+


lemma fixture_calls_pages: "\<forall>c \<in> set fixture_calls. \<not> isl (snd c)"
  by (simp add: fixture_calls_def)

theorem refresh_paginates_witness:
  "refresh fixture insertion_sort [] NewServerState =
     Some (None,
           NewServerState\<lparr>list' := [''A@x.com'', ''b@x.com'', ''c@x.com''],
                           index := build_index Map.empty [''A@x.com'', ''b@x.com'', ''c@x.com'']\<rparr>,
           [], map call_event fixture_calls @ [Lock, WriteList, WriteIndex, Unlock])"
  by (rule refresh_paginates [THEN iffD2], rule exI [of _ fixture_calls])
     (simp add: fixture_pagination pagination_all_pages [OF fixture_pagination fixture_calls_pages]
        collected_examples sort_examples)

theorem refresh_failure_keeps_cache_witness:
  "refresh failing insertion_sort [] cache_foo =
     Some (Some (ErrorString ''remote down''), cache_foo, [], map call_event failing_calls)
   \<and> snapshot (fst (snd (the (refresh failing insertion_sort [] cache_foo)))) = snapshot cache_foo"
  using refresh_failure_keeps_cache [OF failing_pagination,
      where inp = "\<lparr>in_NextToken = Some ''t1'', in_PageSize = Some 1000\<rparr>"
        and err = "ErrorString ''remote down''" and sortSlice = insertion_sort and s = cache_foo]
  by (simp add: failing_calls_def)



section \<open>The cache invariant\<close>


















section \<open>Properties of the handlers\<close>












text \<open>
  C10. When the list of the cache is empty, the copy that \<open>handleList\<close> encodes is \<open>nil\<close>
  and the body of the answer is \<open>null\<close>; when the \<open>emails\<close> field of a removal request
  holds no non-empty line, the \<open>results\<close> field of the answer is \<open>null\<close>.
\<close>

theorem empty_slices_encode_null:
  "(list' s = [] \<longrightarrow>
      snapshot s = None \<and> fst (handleList s) = \<lparr>StatusCode = 200, Body = Json JNull\<rparr>)
   \<and> (Method req = ''POST'' \<and> Decoded req = Some rq \<and> request_inputs (Emails rq) = [] \<longrightarrow>
      fst (handleRemove cl req r s) =
        \<lparr>StatusCode = 200, Body = Json (JObject [(''results'', JNull)])\<rparr>)"
  by (simp add: snapshot_def handleList_def handleRemove_def respondJSON_def
      encode_removeResponse_def)

lemma request_inputs_examples:
  "request_inputs two_lines = [''a@x.com'', ''notthere@x.com'']"
  "request_inputs [CHR 0x0A] = []"
  "request_inputs [] = []"
  by code_simp+




theorem empty_slices_encode_null_witness:
  "snapshot NewServerState = None
   \<and> fst (handleList NewServerState) = \<lparr>StatusCode = 200, Body = Json JNull\<rparr>
   \<and> fst (handleRemove fixture \<lparr>Method = ''POST'', Decoded = Some \<lparr>Emails = [CHR 0x0A]\<rparr>\<rparr> []
             NewServerState)
       = \<lparr>StatusCode = 200, Body = Json (JObject [(''results'', JNull)])\<rparr>"
  using empty_slices_encode_null [where s = NewServerState
      and req = "\<lparr>Method = ''POST'', Decoded = Some \<lparr>Emails = [CHR 0x0A]\<rparr>\<rparr>"
      and rq = "\<lparr>Emails = [CHR 0x0A]\<rparr>" and cl = fixture and r = "[]"]
  by (simp add: NewServerState_def request_inputs_examples)

end
